theory Spec2Isabelle
  imports Main
begin

section \<open>PostManager: a request-mapping facade over a GraphQL executor\<close>

text \<open>
  The development embeds \<^verbatim>\<open>src/managers/posts/post.manager.ts\<close>. Every method of the
  class \<^verbatim>\<open>PostManager\<close> has the same shape: it awaits one call of the inherited
  \<^verbatim>\<open>makeRequest(operationName, document, variables)\<close> and returns a field (or a field of
  a field) of the value the call resolves with. The constructor only hands the client
  and the name \<^verbatim>\<open>PostManager\<close> to the base class; it is not part of the embedding.
\<close>

subsection \<open>JavaScript values and property reads\<close>

text \<open>
  The values that travel through the facade are plain data: the method arguments, the
  variables object built from them and the decoded response envelope. An object keeps
  its properties as an association list in insertion order. Numbers are only ever
  forwarded, never computed with; the one numeric parameter of the class, \<^verbatim>\<open>first\<close>,
  is a count, so numbers are integers here.
\<close>

datatype jsval =
    JUndefined
  | JNull
  | JBool bool
  | JNum int
  | JStr string
  | JArr "jsval list"
  | JObj "(string \<times> jsval) list"

text \<open>
  A promise is rejected either with the \<^verbatim>\<open>TypeError\<close> that the runtime raises when a
  property of \<^verbatim>\<open>undefined\<close> or \<^verbatim>\<open>null\<close> is read (it records the base value and the
  property name), or with any other thrown value.
\<close>

datatype js_error =
    TypeError jsval string
  | Thrown jsval

text \<open>
  The property read \<^verbatim>\<open>v.k\<close>. Reading a property of \<^verbatim>\<open>undefined\<close> or \<^verbatim>\<open>null\<close> throws;
  a missing property of an object reads as \<^verbatim>\<open>undefined\<close>. Booleans, numbers, strings
  and arrays have only built-in properties; none of the property names read in this
  class is one of them, so such a read gives \<^verbatim>\<open>undefined\<close> too.
\<close>

fun get_prop :: "jsval \<Rightarrow> string \<Rightarrow> js_error + jsval" where
  "get_prop JUndefined k = Inl (TypeError JUndefined k)"
| "get_prop JNull k = Inl (TypeError JNull k)"
| "get_prop (JObj kvs) k = (case map_of kvs k of None \<Rightarrow> Inr JUndefined | Some v \<Rightarrow> Inr v)"
| "get_prop (JBool b) k = Inr JUndefined"
| "get_prop (JNum n) k = Inr JUndefined"
| "get_prop (JStr s) k = Inr JUndefined"
| "get_prop (JArr vs) k = Inr JUndefined"

text \<open>The chained read \<^verbatim>\<open>(...).k\<close>: an exception of the inner read propagates.\<close>

fun then_get :: "js_error + jsval \<Rightarrow> string \<Rightarrow> js_error + jsval" where
  "then_get (Inl e) k = Inl e"
| "then_get (Inr v) k = get_prop v k"

subsection \<open>The executor and asynchronous methods\<close>

text \<open>
  \<^verbatim>\<open>makeRequest\<close> is inherited from \<^verbatim>\<open>BaseManager\<close>, which is outside this file: it is
  the external executor, and every method takes it as a parameter. An executor receives
  the operation name, the document and the variables; it runs in a state \<open>'w\<close> that
  stands for everything mutable it can reach (the manager object, the client, the
  network and the remote server) and either rejects with an error or resolves with the
  decoded envelope.
\<close>

type_synonym ('w, 'a) async = "'w \<Rightarrow> (js_error + 'a) \<times> 'w"

type_synonym 'w executor = "string \<Rightarrow> string \<Rightarrow> jsval \<Rightarrow> ('w, jsval) async"

text \<open>
  \<^verbatim>\<open>const res = await p; return k(res)\<close> inside an \<^verbatim>\<open>async\<close> method with no
  \<^verbatim>\<open>try\<close> block: a rejection of \<open>p\<close> rejects the method's promise with the same
  value; otherwise the rest of the body runs on the resolved value, and an exception
  it throws rejects the method's promise.
\<close>

definition await :: "('w, 'a) async \<Rightarrow> ('a \<Rightarrow> js_error + 'b) \<Rightarrow> ('w, 'b) async" where
  "await p k w = (case p w of (Inl e, w') \<Rightarrow> (Inl e, w') | (Inr res, w') \<Rightarrow> (k res, w'))"

text \<open>
  The operation documents are constants imported from \<^verbatim>\<open>./post.queries\<close>, which is
  outside this file; the methods take the table of documents as a parameter.
\<close>

record post_queries =
  ADD_COMMENT_MUTATION :: string
  ADD_POST_TO_SERIES_MUTATION :: string
  ADD_REPLY_MUTATION :: string
  GET_DRAFT_POST_QUERY :: string
  GET_FEED_POST :: string
  GET_POST_COMMENTERS :: string
  GET_POST_COMMENTS :: string
  GET_POST_LIKERS :: string
  GET_POST_PUBLICATION_QUERY :: string
  GET_POST_QUERY :: string
  GET_SCHEDULED_POST_QUERY :: string
  LIKE_COMMENT_MUTATION :: string
  LIKE_POST_MUTATION :: string
  LIKE_REPLY_MUTATION :: string
  PUBLISH_POST_MUTATION :: string
  REMOVE_COMMENT_MUTATION :: string
  REMOVE_POST_MUTATION :: string
  REMOVE_REPLY_MUTATION :: string
  UPDATE_COMMENT_MUTATION :: string
  UPDATE_POST_MUTATION :: string
  UPDATE_REPLY_MUTATION :: string

subsection \<open>Queries\<close>

text \<open>
  Parameters of type \<^verbatim>\<open>string\<close> and \<^verbatim>\<open>number\<close> are strings and integers; parameters
  whose types are declared in the generated schema module (sort orders, filters and
  mutation inputs) are arbitrary values.
\<close>

definition getPost ::
  "post_queries \<Rightarrow> 'w executor \<Rightarrow>
     string \<Rightarrow> ('w, jsval) async" where
  "getPost q makeRequest postId =
     await (makeRequest ''getPost'' (GET_POST_QUERY q) (JObj [(''postId'', JStr postId)]))
       (\<lambda>res. get_prop res ''post'')"

definition getPostPublication ::
  "post_queries \<Rightarrow> 'w executor \<Rightarrow>
     string \<Rightarrow> ('w, jsval) async" where
  "getPostPublication q makeRequest postId =
     await (makeRequest ''getPostPublication'' (GET_POST_PUBLICATION_QUERY q)
              (JObj [(''postId'', JStr postId)]))
       (\<lambda>res. then_get (get_prop res ''post'') ''publication'')"

definition getPostComments ::
  "post_queries \<Rightarrow> 'w executor \<Rightarrow>
     string \<Rightarrow> int \<Rightarrow> string \<Rightarrow> jsval \<Rightarrow> ('w, jsval) async" where
  "getPostComments q makeRequest postId first after sortBy =
     await (makeRequest ''getPostComments'' (GET_POST_COMMENTS q)
              (JObj [(''postId'', JStr postId),
                     (''first'', JNum first),
                     (''after'', JStr after),
                     (''sortBy'', sortBy)]))
       (\<lambda>res. then_get (get_prop res ''post'') ''comments'')"

definition getPostCommenters ::
  "post_queries \<Rightarrow> 'w executor \<Rightarrow>
     string \<Rightarrow> int \<Rightarrow> string \<Rightarrow> jsval \<Rightarrow> ('w, jsval) async" where
  "getPostCommenters q makeRequest postId first after sortBy =
     await (makeRequest ''getPostCommenters'' (GET_POST_COMMENTERS q)
              (JObj [(''postId'', JStr postId),
                     (''first'', JNum first),
                     (''after'', JStr after),
                     (''sortBy'', sortBy)]))
       (\<lambda>res. then_get (get_prop res ''post'') ''commenters'')"

definition getPostLikers ::
  "post_queries \<Rightarrow> 'w executor \<Rightarrow>
     string \<Rightarrow> int \<Rightarrow> string \<Rightarrow> jsval \<Rightarrow> ('w, jsval) async" where
  "getPostLikers q makeRequest postId first after filter' =
     await (makeRequest ''getPostLikers'' (GET_POST_LIKERS q)
              (JObj [(''postId'', JStr postId),
                     (''first'', JNum first),
                     (''after'', JStr after),
                     (''filter'', filter')]))
       (\<lambda>res. then_get (get_prop res ''post'') ''likedBy'')"

definition getDraftPostQuery ::
  "post_queries \<Rightarrow> 'w executor \<Rightarrow>
     string \<Rightarrow> ('w, jsval) async" where
  "getDraftPostQuery q makeRequest draftID =
     await (makeRequest ''getDraftPostQuery'' (GET_DRAFT_POST_QUERY q)
              (JObj [(''id'', JStr draftID)]))
       (\<lambda>res. get_prop res ''draft'')"

definition getScheduledPost ::
  "post_queries \<Rightarrow> 'w executor \<Rightarrow>
     string \<Rightarrow> ('w, jsval) async" where
  "getScheduledPost q makeRequest scheduledPostID =
     await (makeRequest ''getScheduledPost'' (GET_SCHEDULED_POST_QUERY q)
              (JObj [(''id'', JStr scheduledPostID)]))
       (\<lambda>res. get_prop res ''post'')"

definition getFeedPosts ::
  "post_queries \<Rightarrow> 'w executor \<Rightarrow>
     int \<Rightarrow> string \<Rightarrow> jsval \<Rightarrow> ('w, jsval) async" where
  "getFeedPosts q makeRequest first after filter' =
     await (makeRequest ''getFeedPosts'' (GET_FEED_POST q)
              (JObj [(''first'', JNum first),
                     (''after'', JStr after),
                     (''filter'', filter')]))
       (\<lambda>res. get_prop res ''feedPost'')"

subsection \<open>Mutations\<close>

definition publishPost ::
  "post_queries \<Rightarrow> 'w executor \<Rightarrow>
     jsval \<Rightarrow> ('w, jsval) async" where
  "publishPost q makeRequest input =
     await (makeRequest ''publishPost'' (PUBLISH_POST_MUTATION q) (JObj [(''input'', input)]))
       (\<lambda>res. then_get (get_prop res ''publishedpost'') ''post'')"

definition addPostToSeries ::
  "post_queries \<Rightarrow> 'w executor \<Rightarrow>
     jsval \<Rightarrow> ('w, jsval) async" where
  "addPostToSeries q makeRequest input =
     await (makeRequest ''addPostToSeries'' (ADD_POST_TO_SERIES_MUTATION q)
              (JObj [(''input'', input)]))
       (\<lambda>res. get_prop res ''series'')"

definition updatePost ::
  "post_queries \<Rightarrow> 'w executor \<Rightarrow>
     jsval \<Rightarrow> ('w, jsval) async" where
  "updatePost q makeRequest input =
     await (makeRequest ''updatePost'' (UPDATE_POST_MUTATION q) (JObj [(''input'', input)]))
       (\<lambda>res. get_prop res ''updatedPost'')"

definition removePost ::
  "post_queries \<Rightarrow> 'w executor \<Rightarrow>
     jsval \<Rightarrow> ('w, jsval) async" where
  "removePost q makeRequest input =
     await (makeRequest ''removePost'' (REMOVE_POST_MUTATION q) (JObj [(''input'', input)]))
       (\<lambda>res. get_prop res ''removedPost'')"

definition likePost ::
  "post_queries \<Rightarrow> 'w executor \<Rightarrow>
     jsval \<Rightarrow> ('w, jsval) async" where
  "likePost q makeRequest input =
     await (makeRequest ''likePost'' (LIKE_POST_MUTATION q) (JObj [(''input'', input)]))
       (\<lambda>res. get_prop res ''likedPost'')"

definition likeComment ::
  "post_queries \<Rightarrow> 'w executor \<Rightarrow>
     jsval \<Rightarrow> ('w, jsval) async" where
  "likeComment q makeRequest input =
     await (makeRequest ''likeComment'' (LIKE_COMMENT_MUTATION q) (JObj [(''input'', input)]))
       (\<lambda>res. then_get (get_prop res ''likedComment'') ''comment'')"

definition likeReply ::
  "post_queries \<Rightarrow> 'w executor \<Rightarrow>
     jsval \<Rightarrow> ('w, jsval) async" where
  "likeReply q makeRequest input =
     await (makeRequest ''likeReply'' (LIKE_REPLY_MUTATION q) (JObj [(''input'', input)]))
       (\<lambda>res. then_get (get_prop res ''likedReply'') ''reply'')"

definition addComment ::
  "post_queries \<Rightarrow> 'w executor \<Rightarrow>
     jsval \<Rightarrow> ('w, jsval) async" where
  "addComment q makeRequest input =
     await (makeRequest ''addComment'' (ADD_COMMENT_MUTATION q) (JObj [(''input'', input)]))
       (\<lambda>res. then_get (get_prop res ''addedComment'') ''comment'')"

definition updateComment ::
  "post_queries \<Rightarrow> 'w executor \<Rightarrow>
     jsval \<Rightarrow> ('w, jsval) async" where
  "updateComment q makeRequest input =
     await (makeRequest ''updateComment'' (UPDATE_COMMENT_MUTATION q) (JObj [(''input'', input)]))
       (\<lambda>res. then_get (get_prop res ''updatedComment'') ''comment'')"

definition removeComment ::
  "post_queries \<Rightarrow> 'w executor \<Rightarrow>
     jsval \<Rightarrow> ('w, jsval) async" where
  "removeComment q makeRequest input =
     await (makeRequest ''removeComment'' (REMOVE_COMMENT_MUTATION q) (JObj [(''input'', input)]))
       (\<lambda>res. then_get (get_prop res ''removedComment'') ''comment'')"

definition addReply ::
  "post_queries \<Rightarrow> 'w executor \<Rightarrow>
     jsval \<Rightarrow> ('w, jsval) async" where
  "addReply q makeRequest input =
     await (makeRequest ''addReply'' (ADD_REPLY_MUTATION q) (JObj [(''input'', input)]))
       (\<lambda>res. then_get (get_prop res ''addedReply'') ''reply'')"

definition updateReply ::
  "post_queries \<Rightarrow> 'w executor \<Rightarrow>
     jsval \<Rightarrow> ('w, jsval) async" where
  "updateReply q makeRequest input =
     await (makeRequest ''updateReply'' (UPDATE_REPLY_MUTATION q) (JObj [(''input'', input)]))
       (\<lambda>res. then_get (get_prop res ''updatedReply'') ''reply'')"

definition removeReply ::
  "post_queries \<Rightarrow> 'w executor \<Rightarrow>
     jsval \<Rightarrow> ('w, jsval) async" where
  "removeReply q makeRequest input =
     await (makeRequest ''removeReply'' (REMOVE_REPLY_MUTATION q) (JObj [(''input'', input)]))
       (\<lambda>res. then_get (get_prop res ''removedReply'') ''reply'')"

subsection \<open>The public surface\<close>

text \<open>
  The twenty-one methods of the class, in declaration order, and an invocation of one of
  them with its arguments. \<open>invoke\<close> is the method call \<^verbatim>\<open>manager.m(args)\<close>.
\<close>

datatype method_id =
    GetPost
  | GetPostPublication
  | GetPostComments
  | GetPostCommenters
  | GetPostLikers
  | GetDraftPostQuery
  | GetScheduledPost
  | GetFeedPosts
  | PublishPost
  | AddPostToSeries
  | UpdatePost
  | RemovePost
  | LikePost
  | LikeComment
  | LikeReply
  | AddComment
  | UpdateComment
  | RemoveComment
  | AddReply
  | UpdateReply
  | RemoveReply

definition methods :: "method_id list" where
  "methods =
     [GetPost,
      GetPostPublication,
      GetPostComments,
      GetPostCommenters,
      GetPostLikers,
      GetDraftPostQuery,
      GetScheduledPost,
      GetFeedPosts,
      PublishPost,
      AddPostToSeries,
      UpdatePost,
      RemovePost,
      LikePost,
      LikeComment,
      LikeReply,
      AddComment,
      UpdateComment,
      RemoveComment,
      AddReply,
      UpdateReply,
      RemoveReply]"

fun method_name :: "method_id \<Rightarrow> string" where
  "method_name GetPost = ''getPost''"
| "method_name GetPostPublication = ''getPostPublication''"
| "method_name GetPostComments = ''getPostComments''"
| "method_name GetPostCommenters = ''getPostCommenters''"
| "method_name GetPostLikers = ''getPostLikers''"
| "method_name GetDraftPostQuery = ''getDraftPostQuery''"
| "method_name GetScheduledPost = ''getScheduledPost''"
| "method_name GetFeedPosts = ''getFeedPosts''"
| "method_name PublishPost = ''publishPost''"
| "method_name AddPostToSeries = ''addPostToSeries''"
| "method_name UpdatePost = ''updatePost''"
| "method_name RemovePost = ''removePost''"
| "method_name LikePost = ''likePost''"
| "method_name LikeComment = ''likeComment''"
| "method_name LikeReply = ''likeReply''"
| "method_name AddComment = ''addComment''"
| "method_name UpdateComment = ''updateComment''"
| "method_name RemoveComment = ''removeComment''"
| "method_name AddReply = ''addReply''"
| "method_name UpdateReply = ''updateReply''"
| "method_name RemoveReply = ''removeReply''"

datatype call =
    Call_getPost string
  | Call_getPostPublication string
  | Call_getPostComments string int string jsval
  | Call_getPostCommenters string int string jsval
  | Call_getPostLikers string int string jsval
  | Call_getDraftPostQuery string
  | Call_getScheduledPost string
  | Call_getFeedPosts int string jsval
  | Call_publishPost jsval
  | Call_addPostToSeries jsval
  | Call_updatePost jsval
  | Call_removePost jsval
  | Call_likePost jsval
  | Call_likeComment jsval
  | Call_likeReply jsval
  | Call_addComment jsval
  | Call_updateComment jsval
  | Call_removeComment jsval
  | Call_addReply jsval
  | Call_updateReply jsval
  | Call_removeReply jsval

fun method_of :: "call \<Rightarrow> method_id" where
  "method_of (Call_getPost a) = GetPost"
| "method_of (Call_getPostPublication a) = GetPostPublication"
| "method_of (Call_getPostComments a b c d) = GetPostComments"
| "method_of (Call_getPostCommenters a b c d) = GetPostCommenters"
| "method_of (Call_getPostLikers a b c d) = GetPostLikers"
| "method_of (Call_getDraftPostQuery a) = GetDraftPostQuery"
| "method_of (Call_getScheduledPost a) = GetScheduledPost"
| "method_of (Call_getFeedPosts a b c) = GetFeedPosts"
| "method_of (Call_publishPost a) = PublishPost"
| "method_of (Call_addPostToSeries a) = AddPostToSeries"
| "method_of (Call_updatePost a) = UpdatePost"
| "method_of (Call_removePost a) = RemovePost"
| "method_of (Call_likePost a) = LikePost"
| "method_of (Call_likeComment a) = LikeComment"
| "method_of (Call_likeReply a) = LikeReply"
| "method_of (Call_addComment a) = AddComment"
| "method_of (Call_updateComment a) = UpdateComment"
| "method_of (Call_removeComment a) = RemoveComment"
| "method_of (Call_addReply a) = AddReply"
| "method_of (Call_updateReply a) = UpdateReply"
| "method_of (Call_removeReply a) = RemoveReply"

fun invoke :: "post_queries \<Rightarrow> 'w executor \<Rightarrow> call \<Rightarrow> ('w, jsval) async" where
  "invoke q ex (Call_getPost a) = getPost q ex a"
| "invoke q ex (Call_getPostPublication a) = getPostPublication q ex a"
| "invoke q ex (Call_getPostComments a b c d) = getPostComments q ex a b c d"
| "invoke q ex (Call_getPostCommenters a b c d) = getPostCommenters q ex a b c d"
| "invoke q ex (Call_getPostLikers a b c d) = getPostLikers q ex a b c d"
| "invoke q ex (Call_getDraftPostQuery a) = getDraftPostQuery q ex a"
| "invoke q ex (Call_getScheduledPost a) = getScheduledPost q ex a"
| "invoke q ex (Call_getFeedPosts a b c) = getFeedPosts q ex a b c"
| "invoke q ex (Call_publishPost a) = publishPost q ex a"
| "invoke q ex (Call_addPostToSeries a) = addPostToSeries q ex a"
| "invoke q ex (Call_updatePost a) = updatePost q ex a"
| "invoke q ex (Call_removePost a) = removePost q ex a"
| "invoke q ex (Call_likePost a) = likePost q ex a"
| "invoke q ex (Call_likeComment a) = likeComment q ex a"
| "invoke q ex (Call_likeReply a) = likeReply q ex a"
| "invoke q ex (Call_addComment a) = addComment q ex a"
| "invoke q ex (Call_updateComment a) = updateComment q ex a"
| "invoke q ex (Call_removeComment a) = removeComment q ex a"
| "invoke q ex (Call_addReply a) = addReply q ex a"
| "invoke q ex (Call_updateReply a) = updateReply q ex a"
| "invoke q ex (Call_removeReply a) = removeReply q ex a"

subsection \<open>Observing the requests\<close>

record request =
  opName :: string
  document :: string
  variables :: jsval

text \<open>
  An executor wrapped so that it appends every request it receives to a log kept beside
  its own state. The log is how the theorems below speak about what a method passes to
  the executor, and how often.
\<close>

definition recording :: "'w executor \<Rightarrow> (request list \<times> 'w) executor" where
  "recording ex n d v s =
     (case ex n d v (snd s) of
        (r, w') \<Rightarrow> (r, (fst s @ [\<lparr>opName = n, document = d, variables = v\<rparr>], w')))"

text \<open>Passing a recorded request to an executor.\<close>

definition send :: "'w executor \<Rightarrow> request \<Rightarrow> ('w, jsval) async" where
  "send ex r = ex (opName r) (document r) (variables r)"

text \<open>
  A stub executor: it settles every request with the given outcome and has no state
  worth the name.
\<close>

definition stub :: "js_error + jsval \<Rightarrow> unit executor" where
  "stub outcome n d v w = (outcome, w)"

text \<open>
  The request of an invocation, read off a run against a recording stub. That an
  invocation issues exactly this request against every executor is a theorem below.
\<close>

definition request_sent :: "post_queries \<Rightarrow> call \<Rightarrow> request" where
  "request_sent q c = hd (fst (snd (invoke q (recording (stub (Inr JUndefined))) c ([], ()))))"

subsection \<open>Vocabulary of the specification\<close>

text \<open>
  The sub-field \<^verbatim>\<open>envelope.k1.k2...\<close> that the specification designates, as a chain of
  property reads.
\<close>

fun read_path :: "jsval \<Rightarrow> string list \<Rightarrow> js_error + jsval" where
  "read_path v [] = Inr v"
| "read_path v (k # ks) = (case get_prop v k of Inl e \<Rightarrow> Inl e | Inr u \<Rightarrow> read_path u ks)"

text \<open>
  The named top-level field of an envelope is null or absent. A value that is not an
  object has no named field at all.
\<close>

fun field_missing :: "jsval \<Rightarrow> string \<Rightarrow> bool" where
  "field_missing (JObj kvs) k =
     (case map_of kvs k of None \<Rightarrow> True | Some v \<Rightarrow> v = JNull \<or> v = JUndefined)"
| "field_missing JUndefined k = True"
| "field_missing JNull k = True"
| "field_missing (JBool b) k = True"
| "field_missing (JNum n) k = True"
| "field_missing (JStr s) k = True"
| "field_missing (JArr vs) k = True"

text \<open>
  The methods that return a field of a top-level field, each with the name of the
  top-level field it reads through.
\<close>

fun top_field :: "call \<Rightarrow> string option" where
  "top_field (Call_getPost a) = None"
| "top_field (Call_getPostPublication a) = Some ''post''"
| "top_field (Call_getPostComments a b c d) = Some ''post''"
| "top_field (Call_getPostCommenters a b c d) = Some ''post''"
| "top_field (Call_getPostLikers a b c d) = Some ''post''"
| "top_field (Call_getDraftPostQuery a) = None"
| "top_field (Call_getScheduledPost a) = None"
| "top_field (Call_getFeedPosts a b c) = None"
| "top_field (Call_publishPost a) = Some ''publishedpost''"
| "top_field (Call_addPostToSeries a) = None"
| "top_field (Call_updatePost a) = None"
| "top_field (Call_removePost a) = None"
| "top_field (Call_likePost a) = None"
| "top_field (Call_likeComment a) = Some ''likedComment''"
| "top_field (Call_likeReply a) = Some ''likedReply''"
| "top_field (Call_addComment a) = Some ''addedComment''"
| "top_field (Call_updateComment a) = Some ''updatedComment''"
| "top_field (Call_removeComment a) = Some ''removedComment''"
| "top_field (Call_addReply a) = Some ''addedReply''"
| "top_field (Call_updateReply a) = Some ''updatedReply''"
| "top_field (Call_removeReply a) = Some ''removedReply''"

text \<open>Is the outcome a rejection with the property-access error?\<close>

fun property_access_error :: "js_error + jsval \<Rightarrow> bool" where
  "property_access_error (Inl (TypeError b k)) = True"
| "property_access_error (Inl (Thrown v)) = False"
| "property_access_error (Inr v) = False"

subsection \<open>Fixtures\<close>

text \<open>A table of documents for concrete runs; each document is a short placeholder text.\<close>

definition fixture_queries :: post_queries where
  "fixture_queries = \<lparr>
     ADD_COMMENT_MUTATION = ''add_comment_mutation'',
     ADD_POST_TO_SERIES_MUTATION = ''add_post_to_series_mutation'',
     ADD_REPLY_MUTATION = ''add_reply_mutation'',
     GET_DRAFT_POST_QUERY = ''get_draft_post_query'',
     GET_FEED_POST = ''get_feed_post'',
     GET_POST_COMMENTERS = ''get_post_commenters'',
     GET_POST_COMMENTS = ''get_post_comments'',
     GET_POST_LIKERS = ''get_post_likers'',
     GET_POST_PUBLICATION_QUERY = ''get_post_publication_query'',
     GET_POST_QUERY = ''get_post_query'',
     GET_SCHEDULED_POST_QUERY = ''get_scheduled_post_query'',
     LIKE_COMMENT_MUTATION = ''like_comment_mutation'',
     LIKE_POST_MUTATION = ''like_post_mutation'',
     LIKE_REPLY_MUTATION = ''like_reply_mutation'',
     PUBLISH_POST_MUTATION = ''publish_post_mutation'',
     REMOVE_COMMENT_MUTATION = ''remove_comment_mutation'',
     REMOVE_POST_MUTATION = ''remove_post_mutation'',
     REMOVE_REPLY_MUTATION = ''remove_reply_mutation'',
     UPDATE_COMMENT_MUTATION = ''update_comment_mutation'',
     UPDATE_POST_MUTATION = ''update_post_mutation'',
     UPDATE_REPLY_MUTATION = ''update_reply_mutation''\<rparr>"

section \<open>Theorems\<close>

subsection \<open>Auxiliary facts\<close>

lemma recording_await:
  "snd (await (recording ex n d v) k (lg, w)) =
     (lg @ [\<lparr>opName = n, document = d, variables = v\<rparr>], snd (ex n d v w))"
  by (simp add: await_def recording_def split: prod.splits sum.splits)

lemma await_resolved:
  "fst (p w) = Inr res \<Longrightarrow> fst (await p k w) = k res"
  by (cases "p w") (auto simp: await_def split: sum.splits)

lemma await_rejected:
  "fst (p w) = Inl e \<Longrightarrow> fst (await p k w) = Inl e"
  by (cases "p w") (auto simp: await_def split: sum.splits)

lemmas method_defs =
  getPost_def getPostPublication_def getPostComments_def getPostCommenters_def
  getPostLikers_def getDraftPostQuery_def getScheduledPost_def getFeedPosts_def
  publishPost_def addPostToSeries_def updatePost_def removePost_def likePost_def
  likeComment_def likeReply_def addComment_def updateComment_def removeComment_def
  addReply_def updateReply_def removeReply_def

lemma invoke_recording:
  "snd (invoke q (recording ex) c (lg, w)) =
     (lg @ [request_sent q c], snd (send ex (request_sent q c) w))"
  by (cases c) (simp_all add: method_defs request_sent_def recording_await send_def)

lemma invoke_rejected:
  "fst (send ex (request_sent q c) w) = Inl e \<Longrightarrow> fst (invoke q ex c w) = Inl e"
  by (cases c) (simp_all add: method_defs request_sent_def recording_await send_def await_rejected)

lemma opName_request_sent: "opName (request_sent q c) = method_name (method_of c)"
  by (cases c) (simp_all add: method_defs request_sent_def recording_await)

lemma get_prop_error:
  "property_access_error (get_prop v k) = (v = JNull \<or> v = JUndefined)"
  by (cases v) (auto split: option.splits)

lemma get_prop_isl: "isl (get_prop v k) = (v = JNull \<or> v = JUndefined)"
  by (cases v) (auto split: option.splits)

lemma then_get_error:
  "property_access_error (then_get (get_prop env k) k') = field_missing env k"
  by (cases env) (simp_all add: get_prop_error split: option.splits)

lemma then_get_isl:
  "isl (then_get (get_prop env k) k') = field_missing env k"
  by (cases env) (simp_all add: get_prop_isl split: option.splits)

lemma await_read1:
  "fst (p w) = Inr env \<Longrightarrow> fst (await p (\<lambda>res. get_prop res k) w) = read_path env [k]"
  by (simp add: await_resolved split: sum.splits)

lemma await_read2:
  "fst (p w) = Inr env \<Longrightarrow>
     fst (await p (\<lambda>res. then_get (get_prop res k) k') w) = read_path env [k, k']"
  by (simp add: await_resolved split: sum.splits)

subsection \<open>Requests and results\<close>

text \<open>
  C1. For every post id, \<^verbatim>\<open>getPost\<close> passes to the executor the operation name
  \<^verbatim>\<open>getPost\<close>, the document \<^verbatim>\<open>GET_POST_QUERY\<close> and the variables object
  \<^verbatim>\<open>{ postId }\<close>: run against a recording executor, it extends the log by exactly that
  request. For every envelope the executor resolves the request with, the method
  returns the envelope's \<^verbatim>\<open>post\<close> field.
\<close>

theorem getPost_request_and_result:
  "fst (snd (getPost q (recording ex) postId (lg, w))) =
     lg @ [\<lparr>opName = ''getPost'', document = GET_POST_QUERY q,
            variables = JObj [(''postId'', JStr postId)]\<rparr>]
   \<and> (fst (ex ''getPost'' (GET_POST_QUERY q) (JObj [(''postId'', JStr postId)]) w) = Inr env
        \<longrightarrow> fst (getPost q ex postId w) = read_path env [''post''])"
  by (simp add: getPost_def recording_await await_read1)

text \<open>
  A run of C1 against a stub executor with a literal envelope: the executor resolves
  with \<^verbatim>\<open>{ post: { id: 'p1' } }\<close> and \<^verbatim>\<open>getPost\<close> returns \<^verbatim>\<open>{ id: 'p1' }\<close>.
\<close>

theorem getPost_request_and_result_witness:
  "fst (stub (Inr (JObj [(''post'', JObj [(''id'', JStr ''p1'')])])) ''getPost''
          (GET_POST_QUERY fixture_queries) (JObj [(''postId'', JStr ''p1'')]) ()) =
     Inr (JObj [(''post'', JObj [(''id'', JStr ''p1'')])])
   \<and> fst (getPost fixture_queries (stub (Inr (JObj [(''post'', JObj [(''id'', JStr ''p1'')])])))
          ''p1'' ()) =
     Inr (JObj [(''id'', JStr ''p1'')])"
  using getPost_request_and_result
    [where q = fixture_queries and postId = "''p1''" and lg = "[]" and w = "()"
       and ex = "stub (Inr (JObj [(''post'', JObj [(''id'', JStr ''p1'')])]))"
       and env = "JObj [(''post'', JObj [(''id'', JStr ''p1'')])]"]
  by (simp add: stub_def)

text \<open>
  C2. Each of the thirteen mutation methods that take an input record passes to the
  executor the variables object \<^verbatim>\<open>{ input }\<close>, whose only property is the caller's
  input, unchanged (together with the method's operation name and document).
\<close>

theorem mutation_variables_are_input:
  "fst (snd (publishPost q (recording ex) input (lg, w))) =
       lg @ [\<lparr>opName = ''publishPost'', document = PUBLISH_POST_MUTATION q, variables = JObj [(''input'', input)]\<rparr>]
   \<and> fst (snd (addPostToSeries q (recording ex) input (lg, w))) =
       lg @ [\<lparr>opName = ''addPostToSeries'', document = ADD_POST_TO_SERIES_MUTATION q, variables = JObj [(''input'', input)]\<rparr>]
   \<and> fst (snd (updatePost q (recording ex) input (lg, w))) =
       lg @ [\<lparr>opName = ''updatePost'', document = UPDATE_POST_MUTATION q, variables = JObj [(''input'', input)]\<rparr>]
   \<and> fst (snd (removePost q (recording ex) input (lg, w))) =
       lg @ [\<lparr>opName = ''removePost'', document = REMOVE_POST_MUTATION q, variables = JObj [(''input'', input)]\<rparr>]
   \<and> fst (snd (likePost q (recording ex) input (lg, w))) =
       lg @ [\<lparr>opName = ''likePost'', document = LIKE_POST_MUTATION q, variables = JObj [(''input'', input)]\<rparr>]
   \<and> fst (snd (likeComment q (recording ex) input (lg, w))) =
       lg @ [\<lparr>opName = ''likeComment'', document = LIKE_COMMENT_MUTATION q, variables = JObj [(''input'', input)]\<rparr>]
   \<and> fst (snd (likeReply q (recording ex) input (lg, w))) =
       lg @ [\<lparr>opName = ''likeReply'', document = LIKE_REPLY_MUTATION q, variables = JObj [(''input'', input)]\<rparr>]
   \<and> fst (snd (addComment q (recording ex) input (lg, w))) =
       lg @ [\<lparr>opName = ''addComment'', document = ADD_COMMENT_MUTATION q, variables = JObj [(''input'', input)]\<rparr>]
   \<and> fst (snd (updateComment q (recording ex) input (lg, w))) =
       lg @ [\<lparr>opName = ''updateComment'', document = UPDATE_COMMENT_MUTATION q, variables = JObj [(''input'', input)]\<rparr>]
   \<and> fst (snd (removeComment q (recording ex) input (lg, w))) =
       lg @ [\<lparr>opName = ''removeComment'', document = REMOVE_COMMENT_MUTATION q, variables = JObj [(''input'', input)]\<rparr>]
   \<and> fst (snd (addReply q (recording ex) input (lg, w))) =
       lg @ [\<lparr>opName = ''addReply'', document = ADD_REPLY_MUTATION q, variables = JObj [(''input'', input)]\<rparr>]
   \<and> fst (snd (updateReply q (recording ex) input (lg, w))) =
       lg @ [\<lparr>opName = ''updateReply'', document = UPDATE_REPLY_MUTATION q, variables = JObj [(''input'', input)]\<rparr>]
   \<and> fst (snd (removeReply q (recording ex) input (lg, w))) =
       lg @ [\<lparr>opName = ''removeReply'', document = REMOVE_REPLY_MUTATION q, variables = JObj [(''input'', input)]\<rparr>]"
  by (simp add: method_defs recording_await)

text \<open>
  C3. Each mutation method returns one named field of the envelope the executor
  resolves with, for every envelope: \<^verbatim>\<open>publishPost\<close> returns
  \<^verbatim>\<open>envelope.publishedpost.post\<close>, a sub-field of the payload, while \<^verbatim>\<open>updatePost\<close>
  returns \<^verbatim>\<open>envelope.updatedPost\<close> and \<^verbatim>\<open>addPostToSeries\<close> returns
  \<^verbatim>\<open>envelope.series\<close>, the payload itself; the other ten mutations likewise return the
  field or sub-field listed.
\<close>

theorem mutation_result_field:
  "(fst (ex ''publishPost'' (PUBLISH_POST_MUTATION q) (JObj [(''input'', input)]) w) = Inr env
        \<longrightarrow> fst (publishPost q ex input w) = read_path env [''publishedpost'', ''post''])
   \<and> (fst (ex ''addPostToSeries'' (ADD_POST_TO_SERIES_MUTATION q) (JObj [(''input'', input)]) w) = Inr env
        \<longrightarrow> fst (addPostToSeries q ex input w) = read_path env [''series''])
   \<and> (fst (ex ''updatePost'' (UPDATE_POST_MUTATION q) (JObj [(''input'', input)]) w) = Inr env
        \<longrightarrow> fst (updatePost q ex input w) = read_path env [''updatedPost''])
   \<and> (fst (ex ''removePost'' (REMOVE_POST_MUTATION q) (JObj [(''input'', input)]) w) = Inr env
        \<longrightarrow> fst (removePost q ex input w) = read_path env [''removedPost''])
   \<and> (fst (ex ''likePost'' (LIKE_POST_MUTATION q) (JObj [(''input'', input)]) w) = Inr env
        \<longrightarrow> fst (likePost q ex input w) = read_path env [''likedPost''])
   \<and> (fst (ex ''likeComment'' (LIKE_COMMENT_MUTATION q) (JObj [(''input'', input)]) w) = Inr env
        \<longrightarrow> fst (likeComment q ex input w) = read_path env [''likedComment'', ''comment''])
   \<and> (fst (ex ''likeReply'' (LIKE_REPLY_MUTATION q) (JObj [(''input'', input)]) w) = Inr env
        \<longrightarrow> fst (likeReply q ex input w) = read_path env [''likedReply'', ''reply''])
   \<and> (fst (ex ''addComment'' (ADD_COMMENT_MUTATION q) (JObj [(''input'', input)]) w) = Inr env
        \<longrightarrow> fst (addComment q ex input w) = read_path env [''addedComment'', ''comment''])
   \<and> (fst (ex ''updateComment'' (UPDATE_COMMENT_MUTATION q) (JObj [(''input'', input)]) w) = Inr env
        \<longrightarrow> fst (updateComment q ex input w) = read_path env [''updatedComment'', ''comment''])
   \<and> (fst (ex ''removeComment'' (REMOVE_COMMENT_MUTATION q) (JObj [(''input'', input)]) w) = Inr env
        \<longrightarrow> fst (removeComment q ex input w) = read_path env [''removedComment'', ''comment''])
   \<and> (fst (ex ''addReply'' (ADD_REPLY_MUTATION q) (JObj [(''input'', input)]) w) = Inr env
        \<longrightarrow> fst (addReply q ex input w) = read_path env [''addedReply'', ''reply''])
   \<and> (fst (ex ''updateReply'' (UPDATE_REPLY_MUTATION q) (JObj [(''input'', input)]) w) = Inr env
        \<longrightarrow> fst (updateReply q ex input w) = read_path env [''updatedReply'', ''reply''])
   \<and> (fst (ex ''removeReply'' (REMOVE_REPLY_MUTATION q) (JObj [(''input'', input)]) w) = Inr env
        \<longrightarrow> fst (removeReply q ex input w) = read_path env [''removedReply'', ''reply''])"
  by (simp add: method_defs await_read1 await_read2)

text \<open>
  A run of C3 against a stub executor whose envelope holds the three payloads.
\<close>

theorem mutation_result_field_witness:
  "fst (stub (Inr (JObj [(''publishedpost'', JObj [(''post'', JStr ''P'')]),
                         (''updatedPost'', JObj [(''post'', JStr ''U'')]),
                         (''series'', JObj [(''series'', JStr ''S'')])]))
          ''publishPost'' (PUBLISH_POST_MUTATION fixture_queries)
          (JObj [(''input'', JObj [(''title'', JStr ''t'')])]) ()) =
     Inr (JObj [(''publishedpost'', JObj [(''post'', JStr ''P'')]),
                (''updatedPost'', JObj [(''post'', JStr ''U'')]),
                (''series'', JObj [(''series'', JStr ''S'')])])
   \<and> fst (publishPost fixture_queries
          (stub (Inr (JObj [(''publishedpost'', JObj [(''post'', JStr ''P'')]),
                            (''updatedPost'', JObj [(''post'', JStr ''U'')]),
                            (''series'', JObj [(''series'', JStr ''S'')])])))
          (JObj [(''title'', JStr ''t'')]) ()) = Inr (JStr ''P'')
   \<and> fst (updatePost fixture_queries
          (stub (Inr (JObj [(''publishedpost'', JObj [(''post'', JStr ''P'')]),
                            (''updatedPost'', JObj [(''post'', JStr ''U'')]),
                            (''series'', JObj [(''series'', JStr ''S'')])])))
          (JObj [(''title'', JStr ''t'')]) ()) = Inr (JObj [(''post'', JStr ''U'')])
   \<and> fst (addPostToSeries fixture_queries
          (stub (Inr (JObj [(''publishedpost'', JObj [(''post'', JStr ''P'')]),
                            (''updatedPost'', JObj [(''post'', JStr ''U'')]),
                            (''series'', JObj [(''series'', JStr ''S'')])])))
          (JObj [(''title'', JStr ''t'')]) ()) = Inr (JObj [(''series'', JStr ''S'')])"
  using mutation_result_field
    [where q = fixture_queries and w = "()" and input = "JObj [(''title'', JStr ''t'')]"
       and ex = "stub (Inr (JObj [(''publishedpost'', JObj [(''post'', JStr ''P'')]),
                                  (''updatedPost'', JObj [(''post'', JStr ''U'')]),
                                  (''series'', JObj [(''series'', JStr ''S'')])]))"
       and env = "JObj [(''publishedpost'', JObj [(''post'', JStr ''P'')]),
                        (''updatedPost'', JObj [(''post'', JStr ''U'')]),
                        (''series'', JObj [(''series'', JStr ''S'')])]"]
  by (simp add: stub_def)

text \<open>
  C4. For every envelope the executor resolves with, each nested query method returns
  its designated sub-field: \<^verbatim>\<open>getPostPublication\<close> returns \<^verbatim>\<open>envelope.post.publication\<close>,
  \<^verbatim>\<open>getPostComments\<close> returns \<^verbatim>\<open>envelope.post.comments\<close>, \<^verbatim>\<open>getPostCommenters\<close>
  returns \<^verbatim>\<open>envelope.post.commenters\<close> and \<^verbatim>\<open>getPostLikers\<close> returns
  \<^verbatim>\<open>envelope.post.likedBy\<close>.
\<close>

theorem nested_query_result_field:
  "(fst (ex ''getPostPublication'' (GET_POST_PUBLICATION_QUERY q) (JObj [(''postId'', JStr postId)]) w) = Inr env
        \<longrightarrow> fst (getPostPublication q ex postId w) = read_path env [''post'', ''publication''])
   \<and> (fst (ex ''getPostComments'' (GET_POST_COMMENTS q) (JObj [(''postId'', JStr postId), (''first'', JNum first), (''after'', JStr after), (''sortBy'', sortBy)]) w) = Inr env
        \<longrightarrow> fst (getPostComments q ex postId first after sortBy w) = read_path env [''post'', ''comments''])
   \<and> (fst (ex ''getPostCommenters'' (GET_POST_COMMENTERS q) (JObj [(''postId'', JStr postId), (''first'', JNum first), (''after'', JStr after), (''sortBy'', sortBy)]) w) = Inr env
        \<longrightarrow> fst (getPostCommenters q ex postId first after sortBy w) = read_path env [''post'', ''commenters''])
   \<and> (fst (ex ''getPostLikers'' (GET_POST_LIKERS q) (JObj [(''postId'', JStr postId), (''first'', JNum first), (''after'', JStr after), (''filter'', filter')]) w) = Inr env
        \<longrightarrow> fst (getPostLikers q ex postId first after filter' w) = read_path env [''post'', ''likedBy''])"
  by (simp add: method_defs await_read1 await_read2)

text \<open>
  A run of C4 against a stub executor whose envelope holds a post with a publication,
  comments and likers.
\<close>

theorem nested_query_result_field_witness:
  "fst (stub (Inr (JObj [(''post'', JObj [(''publication'', JStr ''B''),
                                          (''comments'', JStr ''C''),
                                          (''likedBy'', JStr ''L'')])]))
          ''getPostPublication'' (GET_POST_PUBLICATION_QUERY fixture_queries)
          (JObj [(''postId'', JStr ''p1'')]) ()) =
     Inr (JObj [(''post'', JObj [(''publication'', JStr ''B''),
                                 (''comments'', JStr ''C''),
                                 (''likedBy'', JStr ''L'')])])
   \<and> fst (getPostPublication fixture_queries
          (stub (Inr (JObj [(''post'', JObj [(''publication'', JStr ''B''),
                                             (''comments'', JStr ''C''),
                                             (''likedBy'', JStr ''L'')])])))
          ''p1'' ()) = Inr (JStr ''B'')
   \<and> fst (getPostComments fixture_queries
          (stub (Inr (JObj [(''post'', JObj [(''publication'', JStr ''B''),
                                             (''comments'', JStr ''C''),
                                             (''likedBy'', JStr ''L'')])])))
          ''p1'' 10 ''c0'' (JStr ''TOP'') ()) = Inr (JStr ''C'')
   \<and> fst (getPostLikers fixture_queries
          (stub (Inr (JObj [(''post'', JObj [(''publication'', JStr ''B''),
                                             (''comments'', JStr ''C''),
                                             (''likedBy'', JStr ''L'')])])))
          ''p1'' 10 ''c0'' (JObj []) ()) = Inr (JStr ''L'')"
  using nested_query_result_field
    [where q = fixture_queries and w = "()" and postId = "''p1''" and first = 10
       and after = "''c0''" and sortBy = "JStr ''TOP''" and filter' = "JObj []"
       and ex = "stub (Inr (JObj [(''post'', JObj [(''publication'', JStr ''B''),
                                                   (''comments'', JStr ''C''),
                                                   (''likedBy'', JStr ''L'')])]))"
       and env = "JObj [(''post'', JObj [(''publication'', JStr ''B''),
                                         (''comments'', JStr ''C''),
                                         (''likedBy'', JStr ''L'')])]"]
  by (simp add: stub_def)

text \<open>
  C5, as stated, fails: \<^verbatim>\<open>getDraftPostQuery('d1')\<close> does not pass the variables object
  \<^verbatim>\<open>{ draftID: 'd1' }\<close>, and \<^verbatim>\<open>getScheduledPost('s1')\<close> does not pass
  \<^verbatim>\<open>{ scheduledPostID: 's1' }\<close>.
\<close>

theorem variables_key_counterexample:
  "map variables (fst (snd (getDraftPostQuery fixture_queries (recording (stub (Inr JNull)))
       ''d1'' ([], ())))) \<noteq> [JObj [(''draftID'', JStr ''d1'')]]
   \<and> map variables (fst (snd (getScheduledPost fixture_queries (recording (stub (Inr JNull)))
       ''s1'' ([], ())))) \<noteq> [JObj [(''scheduledPostID'', JStr ''s1'')]]"
  by (simp add: getDraftPostQuery_def getScheduledPost_def recording_await)

text \<open>
  C5, amended. Each of the twenty-one methods forwards its arguments unchanged as the
  values of the variables object. The keys are the declared parameter names, except in
  \<^verbatim>\<open>getDraftPostQuery\<close> and \<^verbatim>\<open>getScheduledPost\<close>: for every \<^verbatim>\<open>draftID\<close> the former
  forwards it under the key \<^verbatim>\<open>id\<close>, and for every \<^verbatim>\<open>scheduledPostID\<close> the latter
  forwards it under the key \<^verbatim>\<open>id\<close>.
\<close>

theorem method_variables_forwarded:
  "map variables (fst (snd (getPost q (recording ex) postId ([], w)))) =
       [JObj [(''postId'', JStr postId)]]
   \<and> map variables (fst (snd (getPostPublication q (recording ex) postId ([], w)))) =
       [JObj [(''postId'', JStr postId)]]
   \<and> map variables (fst (snd (getPostComments q (recording ex) postId first after sortBy ([], w)))) =
       [JObj [(''postId'', JStr postId), (''first'', JNum first), (''after'', JStr after), (''sortBy'', sortBy)]]
   \<and> map variables (fst (snd (getPostCommenters q (recording ex) postId first after sortBy ([], w)))) =
       [JObj [(''postId'', JStr postId), (''first'', JNum first), (''after'', JStr after), (''sortBy'', sortBy)]]
   \<and> map variables (fst (snd (getPostLikers q (recording ex) postId first after filter' ([], w)))) =
       [JObj [(''postId'', JStr postId), (''first'', JNum first), (''after'', JStr after), (''filter'', filter')]]
   \<and> map variables (fst (snd (getDraftPostQuery q (recording ex) draftID ([], w)))) =
       [JObj [(''id'', JStr draftID)]]
   \<and> map variables (fst (snd (getScheduledPost q (recording ex) scheduledPostID ([], w)))) =
       [JObj [(''id'', JStr scheduledPostID)]]
   \<and> map variables (fst (snd (getFeedPosts q (recording ex) first after filter' ([], w)))) =
       [JObj [(''first'', JNum first), (''after'', JStr after), (''filter'', filter')]]
   \<and> map variables (fst (snd (publishPost q (recording ex) input ([], w)))) =
       [JObj [(''input'', input)]]
   \<and> map variables (fst (snd (addPostToSeries q (recording ex) input ([], w)))) =
       [JObj [(''input'', input)]]
   \<and> map variables (fst (snd (updatePost q (recording ex) input ([], w)))) =
       [JObj [(''input'', input)]]
   \<and> map variables (fst (snd (removePost q (recording ex) input ([], w)))) =
       [JObj [(''input'', input)]]
   \<and> map variables (fst (snd (likePost q (recording ex) input ([], w)))) =
       [JObj [(''input'', input)]]
   \<and> map variables (fst (snd (likeComment q (recording ex) input ([], w)))) =
       [JObj [(''input'', input)]]
   \<and> map variables (fst (snd (likeReply q (recording ex) input ([], w)))) =
       [JObj [(''input'', input)]]
   \<and> map variables (fst (snd (addComment q (recording ex) input ([], w)))) =
       [JObj [(''input'', input)]]
   \<and> map variables (fst (snd (updateComment q (recording ex) input ([], w)))) =
       [JObj [(''input'', input)]]
   \<and> map variables (fst (snd (removeComment q (recording ex) input ([], w)))) =
       [JObj [(''input'', input)]]
   \<and> map variables (fst (snd (addReply q (recording ex) input ([], w)))) =
       [JObj [(''input'', input)]]
   \<and> map variables (fst (snd (updateReply q (recording ex) input ([], w)))) =
       [JObj [(''input'', input)]]
   \<and> map variables (fst (snd (removeReply q (recording ex) input ([], w)))) =
       [JObj [(''input'', input)]]"
  by (simp add: method_defs recording_await)

subsection \<open>Errors and effects\<close>

text \<open>
  C6. For every method and every error \<open>e\<close>: if the executor rejects the method's request
  with \<open>e\<close>, the method rejects with exactly \<open>e\<close>.
\<close>

theorem executor_failure_propagates:
  "fst (send ex (request_sent q c) w) = Inl e \<Longrightarrow> fst (invoke q ex c w) = Inl e"
  by (rule invoke_rejected)

text \<open>
  A run of C6: the stub executor rejects with a thrown value and \<^verbatim>\<open>getPost\<close> rejects
  with the same value.
\<close>

theorem executor_failure_propagates_witness:
  "fst (send (stub (Inl (Thrown (JStr ''network down''))))
          (request_sent fixture_queries (Call_getPost ''p1'')) ()) =
     Inl (Thrown (JStr ''network down''))
   \<and> fst (invoke fixture_queries (stub (Inl (Thrown (JStr ''network down''))))
          (Call_getPost ''p1'') ()) =
     Inl (Thrown (JStr ''network down''))"
  using executor_failure_propagates
    [where q = fixture_queries and c = "Call_getPost ''p1''" and w = "()"
       and ex = "stub (Inl (Thrown (JStr ''network down'')))"
       and e = "Thrown (JStr ''network down'')"]
  by (simp add: send_def stub_def)

text \<open>
  C7. For every invocation of every method, against every executor and from every
  state: the log of a recording executor grows by exactly one request, the one of the
  invocation, and the state afterwards is the state that this single executor call
  leaves. The method body itself changes nothing.
\<close>

theorem one_call_no_other_effect:
  "snd (invoke q (recording ex) c (lg, w)) =
     (lg @ [request_sent q c], snd (send ex (request_sent q c) w))"
  by (rule invoke_recording)

text \<open>
  C8. The request an invocation passes to the executor depends on the method and its
  arguments alone: two runs of the same invocation, against any two executors, from any
  two states and after any two histories of earlier requests, add the same requests to
  the log.
\<close>

theorem request_determined_by_arguments:
  "drop (length lg1) (fst (snd (invoke q (recording ex1) c (lg1, w1)))) =
   drop (length lg2) (fst (snd (invoke q (recording ex2) c (lg2, w2))))"
  by (simp add: invoke_recording)

text \<open>
  C9. For each of the thirteen methods that read a field of a top-level field, and every
  envelope the executor resolves with: the method rejects with the property-access error
  exactly when the named top-level field is null or absent, and it rejects at all only
  in that case. So when the envelope contains the named field with a value other than
  null, the method returns a value.
\<close>

theorem nested_read_partial:
  "top_field c = Some k \<Longrightarrow> fst (send ex (request_sent q c) w) = Inr env \<Longrightarrow>
     property_access_error (fst (invoke q ex c w)) = field_missing env k
     \<and> isl (fst (invoke q ex c w)) = field_missing env k"
  by (cases c)
     (simp_all add: method_defs request_sent_def recording_await send_def await_resolved
        then_get_error then_get_isl)

text \<open>
  Two runs of C9 for \<^verbatim>\<open>getPostPublication\<close>: the envelope \<^verbatim>\<open>{ post: null }\<close> gives the
  property-access error, the envelope \<^verbatim>\<open>{ post: { publication: 'B' } }\<close> gives a value.
\<close>

theorem nested_read_partial_witness:
  "top_field (Call_getPostPublication ''p1'') = Some ''post''
   \<and> fst (send (stub (Inr (JObj [(''post'', JNull)])))
          (request_sent fixture_queries (Call_getPostPublication ''p1'')) ()) =
     Inr (JObj [(''post'', JNull)])
   \<and> property_access_error
        (fst (invoke fixture_queries (stub (Inr (JObj [(''post'', JNull)])))
           (Call_getPostPublication ''p1'') ()))
   \<and> fst (send (stub (Inr (JObj [(''post'', JObj [(''publication'', JStr ''B'')])])))
          (request_sent fixture_queries (Call_getPostPublication ''p1'')) ()) =
     Inr (JObj [(''post'', JObj [(''publication'', JStr ''B'')])])
   \<and> \<not> isl (fst (invoke fixture_queries
          (stub (Inr (JObj [(''post'', JObj [(''publication'', JStr ''B'')])])))
          (Call_getPostPublication ''p1'') ()))"
  using nested_read_partial
    [where q = fixture_queries and c = "Call_getPostPublication ''p1''" and w = "()"
       and k = "''post''" and ex = "stub (Inr (JObj [(''post'', JNull)]))"
       and env = "JObj [(''post'', JNull)]"]
    nested_read_partial
    [where q = fixture_queries and c = "Call_getPostPublication ''p1''" and w = "()"
       and k = "''post''"
       and ex = "stub (Inr (JObj [(''post'', JObj [(''publication'', JStr ''B'')])]))"
       and env = "JObj [(''post'', JObj [(''publication'', JStr ''B'')])]"]
  by (simp add: send_def stub_def)

text \<open>
  C10. For every invocation, the operation name passed to the executor is the name of
  the invoked method; the names of the twenty-one methods are pairwise distinct.
\<close>

theorem operation_name_is_method_name:
  "map opName (fst (snd (invoke q (recording ex) c ([], w)))) = [method_name (method_of c)]
   \<and> distinct (map method_name methods)
   \<and> length methods = 21
   \<and> set methods = UNIV"
proof -
  have "set methods = UNIV"
    using method_id.exhaust by (auto simp: methods_def)
  then show ?thesis
    by (simp add: invoke_recording opName_request_sent) (simp add: methods_def)
qed

end
